theory Spec2Isabelle
  imports Main "HOL-Library.Word" "HOL-Library.Sublist"
begin

section \<open>JavaScript values\<close>

text \<open>
  A JavaScript string is a sequence of UTF-16 code units. The regular expression of
  \<open>sanitiseNote\<close> has no \<open>u\<close> flag, so it reads the string unit by unit.
\<close>

type_synonym jsstring = "16 word list"

text \<open>A string literal of the source whose characters are all ASCII.\<close>

definition js :: "string \<Rightarrow> jsstring" where
  "js s = map of_char s"

text \<open>
  The values that reach the settings object and the handlers. Numbers are written as
  integers: the only number of the source is the literal \<open>2\<close> of \<open>version\<close>.
\<close>

datatype jsval = JUndefined | JNull | JBool bool | JNum int | JStr jsstring

datatype error = TypeError

text \<open>ToBoolean, and the operator \<open>a || b\<close>.\<close>

fun truthy :: "jsval \<Rightarrow> bool" where
  "truthy JUndefined = False"
| "truthy JNull = False"
| "truthy (JBool b) = b"
| "truthy (JNum n) = (n \<noteq> 0)"
| "truthy (JStr s) = (s \<noteq> [])"

definition js_or :: "jsval \<Rightarrow> jsval \<Rightarrow> jsval" where
  "js_or a b = (if truthy a then a else b)"

text \<open>
  The class \<open>\s\<close> of an ECMAScript regular expression: the WhiteSpace and
  LineTerminator code points, all of them in the basic plane.
\<close>

definition isWhiteSpace :: "16 word \<Rightarrow> bool" where
  "isWhiteSpace c =
     (c \<in> set [0x09, 0x0A, 0x0B, 0x0C, 0x0D, 0x20, 0xA0, 0x1680,
               0x2028, 0x2029, 0x202F, 0x205F, 0x3000, 0xFEFF]
      \<or> (0x2000 \<le> c \<and> c \<le> 0x200A))"

text \<open>
  \<open>value.match(/^\s*$/) !== null\<close>: from the start of the input the greedy \<open>\s*\<close>
  takes the longest run of white space, and \<open>$\<close> (no \<open>m\<close> flag) asks for the end of
  the input there. Backtracking to a shorter run stops before a white-space unit, never
  at the end, so the match succeeds exactly when the longest run reaches the end.
\<close>

definition match_blank :: "jsstring \<Rightarrow> bool" where
  "match_blank v = (dropWhile isWhiteSpace v = [])"

text \<open>
  \<open>String.prototype.contains\<close>, which the host adds to strings: whether \<open>target\<close>
  occurs at some index of the string.
\<close>

fun contains :: "jsstring \<Rightarrow> jsstring \<Rightarrow> bool" where
  "contains [] target = (target = [])"
| "contains (c # s) target = (prefix target (c # s) \<or> contains s target)"

text \<open>
  \<open>String.prototype.toLowerCase\<close> belongs to the runtime and is a parameter \<open>lower\<close>
  of the suggestion functions. This is its restriction to ASCII letters, for evaluating
  them at concrete inputs.
\<close>

definition toLowerCase_ascii :: "jsstring \<Rightarrow> jsstring" where
  "toLowerCase_ascii s = map (\<lambda>c. if 0x41 \<le> c \<and> c \<le> 0x5A then c + 0x20 else c) s"

section \<open>The enumerations and the settings object\<close>

text \<open>
  A string enum is an object whose properties are listed in declaration order;
  \<open>Object.values\<close> returns the property values in that order.
\<close>

type_synonym enum_object = "(string \<times> jsstring) list"

definition Mode :: enum_object where
  "Mode = [(''ReplaceAll'', js ''Replace all open notes''),
           (''ReplaceLast'', js ''Replace last note''),
           (''Retain'', js ''Keep open notes'')]"

definition View :: enum_object where
  "View = [(''Default'', js ''Default view''),
           (''Reading'', js ''Reading view''),
           (''Source'', js ''Editing view (Source)''),
           (''LivePreview'', js ''Editing view (Live Preview)'')]"

definition Object_values :: "enum_object \<Rightarrow> jsstring list" where
  "Object_values source = map snd source"

text \<open>A member of an enum, as in \<open>Mode.ReplaceAll\<close>.\<close>

definition member :: "enum_object \<Rightarrow> string \<Rightarrow> jsval" where
  "member source k = (case map_of source k of None \<Rightarrow> JUndefined | Some s \<Rightarrow> JStr s)"

text \<open>
  \<open>HomepageSettings\<close> declares an index signature \<open>[member: string]: any\<close> and the
  settings tab reads and writes it by key (\<open>this.settings[setting]\<close>), so the object
  is a map from property names to values. Reading a property that is not there gives
  \<open>undefined\<close>.
\<close>

type_synonym HomepageSettings = "string \<rightharpoonup> jsval"

definition lookup :: "HomepageSettings \<Rightarrow> string \<Rightarrow> jsval" where
  "lookup obj k = (case obj k of None \<Rightarrow> JUndefined | Some v \<Rightarrow> v)"

text \<open>The members the interface declares, with their declared types.\<close>

datatype jstype = TNumber | TString | TBoolean

fun has_type :: "jsval \<Rightarrow> jstype \<Rightarrow> bool" where
  "has_type (JNum n) ty = (ty = TNumber)"
| "has_type (JStr s) ty = (ty = TString)"
| "has_type (JBool b) ty = (ty = TBoolean)"
| "has_type JUndefined ty = False"
| "has_type JNull ty = False"

text \<open>\<open>src/src/settings.ts\<close>, lines 19 to 52.\<close>

definition HomepageSettings_members :: "(string \<times> jstype) list" where
  "HomepageSettings_members =
     [(''version'', TNumber), (''defaultNote'', TString), (''useMoment'', TBoolean),
      (''momentFormat'', TString), (''workspace'', TString), (''workspaceEnabled'', TBoolean),
      (''hasRibbonIcon'', TBoolean), (''openMode'', TString), (''manualOpenMode'', TString),
      (''view'', TString), (''revertView'', TBoolean), (''refreshDataview'', TBoolean),
      (''autoCreate'', TBoolean), (''pin'', TBoolean)]"

definition DEFAULT :: HomepageSettings where
  "DEFAULT = map_of
     [(''version'', JNum 2),
      (''defaultNote'', JStr (js ''Home'')),
      (''useMoment'', JBool False),
      (''momentFormat'', JStr (js ''YYYY-MM-DD'')),
      (''workspace'', JStr (js ''Home'')),
      (''workspaceEnabled'', JBool False),
      (''hasRibbonIcon'', JBool True),
      (''openMode'', member Mode ''ReplaceAll''),
      (''manualOpenMode'', member Mode ''Retain''),
      (''view'', member View ''Default''),
      (''revertView'', JBool True),
      (''refreshDataview'', JBool False),
      (''autoCreate'', JBool True),
      (''pin'', JBool False)]"

text \<open>\<open>src/unnamed/part_000\<close>, lines 19 to 56.\<close>

definition HomepageSettings_members_part_000 :: "(string \<times> jstype) list" where
  "HomepageSettings_members_part_000 =
     [(''version'', TNumber), (''defaultNote'', TString), (''useMoment'', TBoolean),
      (''momentFormat'', TString), (''workspace'', TString), (''workspaceEnabled'', TBoolean),
      (''openOnStartup'', TBoolean), (''hasRibbonIcon'', TBoolean), (''openMode'', TString),
      (''manualOpenMode'', TString), (''view'', TString), (''revertView'', TBoolean),
      (''refreshDataview'', TBoolean), (''autoCreate'', TBoolean), (''autoScroll'', TBoolean),
      (''pin'', TBoolean)]"

definition DEFAULT_part_000 :: HomepageSettings where
  "DEFAULT_part_000 = map_of
     [(''version'', JNum 2),
      (''defaultNote'', JStr (js ''Home'')),
      (''useMoment'', JBool False),
      (''momentFormat'', JStr (js ''YYYY-MM-DD'')),
      (''workspace'', JStr (js ''Home'')),
      (''workspaceEnabled'', JBool False),
      (''openOnStartup'', JBool True),
      (''hasRibbonIcon'', JBool True),
      (''openMode'', member Mode ''ReplaceAll''),
      (''manualOpenMode'', member Mode ''Retain''),
      (''view'', member View ''Default''),
      (''revertView'', JBool True),
      (''refreshDataview'', JBool False),
      (''autoCreate'', JBool True),
      (''autoScroll'', JBool False),
      (''pin'', JBool False)]"

definition HIDDEN :: string where
  "HIDDEN = ''nv-workspace-hidden''"

section \<open>Note-name sanitisation\<close>

text \<open>
  \<open>normalizePath\<close> is the host's and is a parameter. The declared type of \<open>value\<close> is
  \<open>string\<close>; \<open>null\<close> is tested for, and on any other value the call \<open>value.match\<close>
  raises a TypeError. The function returns \<open>null\<close> or a string.
  \<open>src/src/settings.ts\<close>, lines 66 to 71.
\<close>

definition sanitiseNote :: "(jsstring \<Rightarrow> jsstring) \<Rightarrow> jsval \<Rightarrow> error + jsval" where
  "sanitiseNote normalizePath value =
     (if value = JNull then Inr JNull
      else case value of
        JStr v \<Rightarrow> if match_blank v then Inr JNull else Inr (JStr (normalizePath v))
      | _ \<Rightarrow> Inl TypeError)"

text \<open>The method of the same name in \<open>src/unnamed/part_000\<close>, lines 70 to 75.\<close>

definition sanitiseNote_part_000 :: "(jsstring \<Rightarrow> jsstring) \<Rightarrow> jsval \<Rightarrow> error + jsval" where
  "sanitiseNote_part_000 normalizePath value =
     (if value = JNull then Inr JNull
      else case value of
        JStr v \<Rightarrow> if match_blank v then Inr JNull else Inr (JStr (normalizePath v))
      | _ \<Rightarrow> Inl TypeError)"

section \<open>The settings tab\<close>

text \<open>
  What the host's widgets hold. A dropdown keeps its options in the order of the
  \<open>addOption\<close> calls and the value given to \<open>setValue\<close>. A control carries the data the
  source gives it and names its change handler: the bound settings key and, for a
  toggle, the callback. Descriptions and other static text are not part of the model.
\<close>

datatype callback = NoCallback | Redisplay | SetIcon | SetReversion

datatype suggestor = WorkspaceSuggest | FileSuggest

record DropdownComponent =
  options :: "(jsstring \<times> jsstring) list"
  selected :: jsval

definition new_DropdownComponent :: DropdownComponent where
  "new_DropdownComponent = \<lparr>options = [], selected = JStr []\<rparr>"

definition addOption :: "jsstring \<Rightarrow> jsstring \<Rightarrow> DropdownComponent \<Rightarrow> DropdownComponent" where
  "addOption v d dropdown = dropdown\<lparr>options := options dropdown @ [(v, d)]\<rparr>"

definition setValue :: "jsval \<Rightarrow> DropdownComponent \<Rightarrow> DropdownComponent" where
  "setValue v dropdown = dropdown\<lparr>selected := v\<rparr>"

datatype control =
    MomentFormatC jsstring jsval
  | TextC suggestor string jsval jsval
  | ToggleC string jsval callback
  | DropdownC string DropdownComponent
  | HeadingC

text \<open>
  \<open>MomentFormatC default value\<close>; \<open>TextC suggestor homepage placeholder value\<close>, where
  \<open>homepage\<close> is the key its handler writes; \<open>ToggleC setting value callback\<close>;
  \<open>DropdownC setting dropdown\<close>.
\<close>

record Setting =
  name :: string
  control :: control
  hidden :: bool
  style :: string

text \<open>\<open>hidden\<close>: the element has the class \<open>HIDDEN\<close>. \<open>style\<close>: its style attribute.\<close>

datatype element = WarningDiv | SettingEl Setting

text \<open>
  The tab: the settings object (the plugin's, shared with the tab by the constructor),
  what \<open>saveSettings\<close> last wrote to the plugin data, and the children of \<open>containerEl\<close>.
  A \<open>Setting\<close> that the source keeps in a variable is referred to by its index there.
\<close>

record tab =
  settings :: HomepageSettings
  stored :: "HomepageSettings option"
  containerEl :: "element list"

text \<open>
  The plugin and the host around the tab, none of it under \<open>src/\<close>:
  \<open>this.plugin.workspacesMode()\<close>, \<open>getDailynotesAutorun(this.app)\<close>,
  \<open>this.plugin.workspacePlugin?.enabled\<close>, \<open>getDataviewPlugin(this.plugin.app)\<close>,
  \<open>this.plugin.setIcon\<close> and \<open>this.plugin.setReversion\<close>.
\<close>

record host =
  plugin_workspacesMode :: "tab \<Rightarrow> bool"
  getDailynotesAutorun :: bool
  workspacePlugin_enabled :: bool
  getDataviewPlugin :: bool
  setIcon :: "jsval \<Rightarrow> tab \<Rightarrow> tab"
  setReversion :: "jsval \<Rightarrow> tab \<Rightarrow> tab"

definition appendChild :: "element \<Rightarrow> tab \<Rightarrow> nat \<times> tab" where
  "appendChild e t = (length (containerEl t), t\<lparr>containerEl := containerEl t @ [e]\<rparr>)"

fun modify :: "nat \<Rightarrow> ('a \<Rightarrow> 'a) \<Rightarrow> 'a list \<Rightarrow> 'a list" where
  "modify i f [] = []"
| "modify 0 f (x # xs) = f x # xs"
| "modify (Suc i) f (x # xs) = x # modify i f xs"

fun setStyle :: "string \<Rightarrow> element \<Rightarrow> element" where
  "setStyle s (SettingEl x) = SettingEl (x\<lparr>style := s\<rparr>)"
| "setStyle s WarningDiv = WarningDiv"

fun appendStyle :: "string \<Rightarrow> element \<Rightarrow> element" where
  "appendStyle s (SettingEl x) = SettingEl (x\<lparr>style := style x @ s\<rparr>)"
| "appendStyle s WarningDiv = WarningDiv"

fun hasClass_HIDDEN :: "element \<Rightarrow> bool" where
  "hasClass_HIDDEN (SettingEl x) = hidden x"
| "hasClass_HIDDEN WarningDiv = False"

text \<open>\<open>addDropdown\<close> and \<open>addToggle\<close> have the same text in both files.\<close>

definition addDropdown :: "string \<Rightarrow> string \<Rightarrow> enum_object \<Rightarrow> tab \<Rightarrow> nat \<times> tab" where
  "addDropdown nm setting source t =
     (let dropdown = fold (\<lambda>key d. addOption key key d) (Object_values source)
                       new_DropdownComponent;
          dropdown = setValue (lookup (settings t) setting) dropdown
      in appendChild (SettingEl \<lparr>name = nm, control = DropdownC setting dropdown,
                                hidden = True, style = []\<rparr>) t)"

definition addToggle :: "string \<Rightarrow> string \<Rightarrow> callback \<Rightarrow> bool \<Rightarrow> tab \<Rightarrow> nat \<times> tab" where
  "addToggle nm setting cb workspaces t =
     appendChild (SettingEl \<lparr>name = nm,
                             control = ToggleC setting (lookup (settings t) setting) cb,
                             hidden = (\<not> workspaces), style = []\<rparr>) t"

text \<open>\<open>src/unnamed/part_000\<close>, lines 200 to 208.\<close>

definition disableSetting :: "element \<Rightarrow> element" where
  "disableSetting setting = setStyle ''opacity: .5; pointer-events: none !important;'' setting"

definition addHeading :: "string \<Rightarrow> tab \<Rightarrow> nat \<times> tab" where
  "addHeading nm t =
     appendChild (SettingEl \<lparr>name = nm, control = HeadingC, hidden = True, style = []\<rparr>) t"

text \<open>
  The homepage entry of \<open>display\<close> (the two branches of its first conditional), which
  both files build the same way up to static text. \<open>DEFAULT[homepage]\<close> is a string, and
  \<open>==\<close> between a string that is not numeric and another value holds only for the same
  string.
\<close>

definition homepage_entry :: "HomepageSettings \<Rightarrow> bool \<Rightarrow> tab \<Rightarrow> tab" where
  "homepage_entry D workspacesMode t =
     (let suggestor = (if workspacesMode then WorkspaceSuggest else FileSuggest);
          homepage = (if workspacesMode then ''workspace'' else ''defaultNote'')
      in if truthy (lookup (settings t) ''useMoment'') \<and> \<not> workspacesMode
         then snd (appendChild (SettingEl \<lparr>name = ''Homepage format'',
                    control = MomentFormatC (js ''YYYY-MM-DD'') (lookup (settings t) ''momentFormat''),
                    hidden = False, style = []\<rparr>) t)
         else snd (appendChild (SettingEl \<lparr>name = ''Homepage'',
                    control = TextC suggestor homepage (lookup D homepage)
                      (if lookup D homepage = lookup (settings t) homepage then JStr []
                       else lookup (settings t) homepage),
                    hidden = False, style = []\<rparr>) t))"

text \<open>\<open>display\<close> of \<open>src/src/settings.ts\<close>, lines 73 to 189.\<close>

definition display :: "host \<Rightarrow> tab \<Rightarrow> tab" where
  "display h t0 =
     (let workspacesMode = plugin_workspacesMode h t0;
          t = t0\<lparr>containerEl := []\<rparr>;
          t = (if getDailynotesAutorun h then t\<lparr>containerEl := WarningDiv # containerEl t\<rparr> else t);
          t = homepage_entry DEFAULT workspacesMode t;
          t = snd (addToggle ''Use date formatting'' ''useMoment'' Redisplay False t);
          t = (if workspacePlugin_enabled h
               then snd (addToggle ''Use workspaces'' ''workspaceEnabled'' Redisplay True t)
               else t);
          (ribbonSetting, t) = addToggle ''Display ribbon icon'' ''hasRibbonIcon'' SetIcon True t;
          t = t\<lparr>containerEl := modify ribbonSetting
                 (setStyle ''padding-top: 70px; border-top: none !important'') (containerEl t)\<rparr>;
          t = snd (addDropdown ''Homepage view'' ''view'' View t);
          t = snd (addToggle ''Revert view on close'' ''revertView'' SetReversion False t);
          t = snd (addDropdown ''Opening method'' ''openMode'' Mode t);
          t = snd (addDropdown ''Manual opening method'' ''manualOpenMode'' Mode t);
          t = snd (addToggle ''Auto-create'' ''autoCreate'' NoCallback False t);
          t = snd (addToggle ''Pin'' ''pin'' NoCallback False t);
          t = (if getDataviewPlugin h
               then snd (addToggle ''Refresh Dataview'' ''refreshDataview'' NoCallback False t)
               else t)
      in if workspacesMode
         then t\<lparr>containerEl := map (\<lambda>s. if hasClass_HIDDEN s
                  then setStyle ''opacity: .5; pointer-events: none !important'' s else s)
                (containerEl t)\<rparr>
         else t)"

text \<open>\<open>display\<close> of \<open>src/unnamed/part_000\<close>, lines 77 to 198.\<close>

definition display_part_000 :: "host \<Rightarrow> tab \<Rightarrow> tab" where
  "display_part_000 h t0 =
     (let workspacesMode = plugin_workspacesMode h t0;
          dailynotesAutorun = getDailynotesAutorun h;
          t = t0\<lparr>containerEl := []\<rparr>;
          t = homepage_entry DEFAULT_part_000 workspacesMode t;
          t = snd (addToggle ''Use date formatting'' ''useMoment'' Redisplay False t);
          t = (if workspacePlugin_enabled h
               then snd (addToggle ''Use workspaces'' ''workspaceEnabled'' Redisplay True t)
               else t);
          (startupSetting, t) = addToggle ''Open on startup'' ''openOnStartup'' Redisplay True t;
          t = (if dailynotesAutorun
               then t\<lparr>containerEl := modify startupSetting disableSetting (containerEl t)\<rparr>
               else t);
          t = t\<lparr>containerEl := modify startupSetting
                 (appendStyle ''padding-top: 30px; border-top: none !important'') (containerEl t)\<rparr>;
          t = snd (addToggle ''Use ribbon icon'' ''hasRibbonIcon'' SetIcon True t);
          t = snd (addHeading ''Vault environment'' t);
          (openingSetting, t) = addDropdown ''Opening method'' ''openMode'' Mode t;
          t = snd (addDropdown ''Manual opening method'' ''manualOpenMode'' Mode t);
          t = snd (addToggle ''Auto-create'' ''autoCreate'' NoCallback False t);
          t = snd (addToggle ''Pin'' ''pin'' NoCallback False t);
          t = snd (addHeading ''Pane'' t);
          t = snd (addDropdown ''Homepage view'' ''view'' View t);
          t = snd (addToggle ''Revert view on close'' ''revertView'' SetReversion False t);
          t = snd (addToggle ''Auto-scroll'' ''autoScroll'' NoCallback False t);
          t = (if getDataviewPlugin h
               then snd (addToggle ''Refresh Dataview'' ''refreshDataview'' NoCallback False t)
               else t);
          t = (if workspacesMode
               then t\<lparr>containerEl := map (\<lambda>s. if hasClass_HIDDEN s then disableSetting s else s)
                      (containerEl t)\<rparr>
               else t)
      in if \<not> truthy (lookup (settings t) ''openOnStartup'') \<or> dailynotesAutorun
         then t\<lparr>containerEl := modify openingSetting disableSetting (containerEl t)\<rparr>
         else t)"

section \<open>The change handlers\<close>

text \<open>
  Modelled from the spec: \<open>Homepage.saveSettings\<close> is in \<open>main.ts\<close>, which is not under
  \<open>src/\<close>. The spec says that the record is persisted wholesale by the host's
  plugin-data storage; the call writes the whole settings object and changes none of
  its fields.
\<close>

definition saveSettings :: "tab \<Rightarrow> tab" where
  "saveSettings t = t\<lparr>stored := Some (settings t)\<rparr>"






text \<open>
  The handler of the homepage text field, \<open>src/src/settings.ts\<close> lines 115 to 118 and
  \<open>src/unnamed/part_000\<close> lines 116 to 119.
\<close>

definition text_onChange ::
  "(jsstring \<Rightarrow> jsstring) \<Rightarrow> string \<Rightarrow> jsval \<Rightarrow> tab \<Rightarrow> error + tab" where
  "text_onChange normalizePath homepage v t =
     (case sanitiseNote normalizePath v of
        Inl e \<Rightarrow> Inl e
      | Inr r \<Rightarrow>
          (let t = t\<lparr>settings := (settings t)(homepage \<mapsto> js_or r (lookup DEFAULT homepage))\<rparr>
           in Inr (saveSettings t)))"

definition text_onChange_part_000 ::
  "(jsstring \<Rightarrow> jsstring) \<Rightarrow> string \<Rightarrow> jsval \<Rightarrow> tab \<Rightarrow> error + tab" where
  "text_onChange_part_000 normalizePath homepage v t =
     (case sanitiseNote_part_000 normalizePath v of
        Inl e \<Rightarrow> Inl e
      | Inr r \<Rightarrow>
          (let t = t\<lparr>settings := (settings t)(homepage \<mapsto> js_or r (lookup DEFAULT_part_000 homepage))\<rparr>
           in Inr (saveSettings t)))"




section \<open>The suggesters\<close>

text \<open>
  The entries of the vault, with the fields of the host's \<open>TFile\<close> that matter here:
  the full path, the base name (the name without folder and extension) and the
  extension.
\<close>

datatype TAbstractFile =
    TFile (path: jsstring) (basename: jsstring) (extension: jsstring)
  | TFolder (path: jsstring)

text \<open>
  \<open>FileSuggest.getSuggestions\<close>, \<open>src/src/settings.ts\<close> lines 227 to 242;
  \<open>abstractFiles\<close> is what \<open>this.app.vault.getAllLoadedFiles()\<close> returns.
\<close>

fun suggested :: "(jsstring \<Rightarrow> jsstring) \<Rightarrow> jsstring \<Rightarrow> TAbstractFile \<Rightarrow> bool" where
  "suggested lower inputLower (TFile p b e) = (e = js ''md'' \<and> contains (lower p) inputLower)"
| "suggested lower inputLower (TFolder p) = False"

definition FileSuggest_getSuggestions ::
  "(jsstring \<Rightarrow> jsstring) \<Rightarrow> TAbstractFile list \<Rightarrow> jsstring \<Rightarrow> TAbstractFile list" where
  "FileSuggest_getSuggestions lower abstractFiles inputStr =
     (let inputLower = lower inputStr
      in fold (\<lambda>file files. if suggested lower inputLower file then files @ [file] else files)
           abstractFiles [])"

text \<open>
  \<open>WorkspaceSuggest.getSuggestions\<close>, lines 256 to 261. \<open>plugin_workspaces\<close> is
  \<open>getWorkspacePlugin(this.app)?.instance.workspaces\<close>: \<open>None\<close> when the plugin is not
  there (the optional chain gives \<open>undefined\<close>, and \<open>Object.keys\<close> raises), otherwise
  the keys of the object, the workspace names.
\<close>

definition WorkspaceSuggest_getSuggestions ::
  "(jsstring \<Rightarrow> jsstring) \<Rightarrow> jsstring list option \<Rightarrow> jsstring \<Rightarrow> error + jsstring list" where
  "WorkspaceSuggest_getSuggestions lower plugin_workspaces inputStr =
     (case plugin_workspaces of
        None \<Rightarrow> Inl TypeError
      | Some workspaces \<Rightarrow>
          (let inputLower = lower inputStr
           in Inr (filter (\<lambda>workspace. contains (lower workspace) inputLower) workspaces)))"

section \<open>Reading the rendered tab\<close>

text \<open>
  The controls of the \<open>Setting\<close>s under \<open>containerEl\<close>, in order, and the kinds of
  control the properties below count.
\<close>

fun controls :: "element list \<Rightarrow> control list" where
  "controls [] = []"
| "controls (WarningDiv # es) = controls es"
| "controls (SettingEl x # es) = control x # controls es"

fun isMomentFormat :: "control \<Rightarrow> bool" where
  "isMomentFormat (MomentFormatC d x) = True"
| "isMomentFormat c = False"

fun isHomepageText :: "control \<Rightarrow> bool" where
  "isHomepageText (TextC s k p x) = True"
| "isHomepageText c = False"

fun isDropdown :: "control \<Rightarrow> bool" where
  "isDropdown (DropdownC k d) = True"
| "isDropdown c = False"

text \<open>The dropdown with one option per value of \<open>source\<close> and \<open>v\<close> selected.\<close>

definition built_dropdown :: "enum_object \<Rightarrow> jsval \<Rightarrow> DropdownComponent" where
  "built_dropdown source v =
     \<lparr>options = map (\<lambda>key. (key, key)) (Object_values source), selected = v\<rparr>"

text \<open>The control of the homepage entry, as a function of the settings.\<close>

definition homepage_control :: "HomepageSettings \<Rightarrow> bool \<Rightarrow> HomepageSettings \<Rightarrow> control" where
  "homepage_control D workspacesMode s =
     (if truthy (lookup s ''useMoment'') \<and> \<not> workspacesMode
      then MomentFormatC (js ''YYYY-MM-DD'') (lookup s ''momentFormat'')
      else TextC (if workspacesMode then WorkspaceSuggest else FileSuggest)
             (if workspacesMode then ''workspace'' else ''defaultNote'')
             (lookup D (if workspacesMode then ''workspace'' else ''defaultNote''))
             (if lookup D (if workspacesMode then ''workspace'' else ''defaultNote'')
                 = lookup s (if workspacesMode then ''workspace'' else ''defaultNote'')
              then JStr []
              else lookup s (if workspacesMode then ''workspace'' else ''defaultNote'')))"

section \<open>Properties of the sanitisation\<close>

lemma match_blank_iff: "match_blank v \<longleftrightarrow> (\<forall>c\<in>set v. isWhiteSpace c)"
  by (simp add: match_blank_def)

lemma lookup_upd_same: "lookup (obj(k \<mapsto> v)) k = v"
  by (simp add: lookup_def)

lemma lookup_upd_other: "k' \<noteq> k \<Longrightarrow> lookup (obj(k \<mapsto> v)) k' = lookup obj k'"
  by (simp add: lookup_def)

lemma sanitiseNote_blank:
  "\<forall>c\<in>set v. isWhiteSpace c \<Longrightarrow> sanitiseNote normalizePath (JStr v) = Inr JNull"
  by (simp add: sanitiseNote_def match_blank_iff)

lemma sanitiseNote_part_000_blank:
  "\<forall>c\<in>set v. isWhiteSpace c \<Longrightarrow> sanitiseNote_part_000 normalizePath (JStr v) = Inr JNull"
  by (simp add: sanitiseNote_part_000_def match_blank_iff)

lemma isWhiteSpace_space: "isWhiteSpace 0x20"
  by (simp add: isWhiteSpace_def)

lemma js_Home: "js ''Home'' = [0x48, 0x6F, 0x6D, 0x65]"
  by (simp add: js_def)

lemma not_isWhiteSpace_H: "\<not> isWhiteSpace 0x48"
  by (simp add: isWhiteSpace_def)

lemma lookup_DEFAULT_homepage:
  "lookup DEFAULT ''defaultNote'' = JStr (js ''Home'')"
  "lookup DEFAULT ''workspace'' = JStr (js ''Home'')"
  by (simp_all add: lookup_def DEFAULT_def)

lemma lookup_DEFAULT_part_000_homepage:
  "lookup DEFAULT_part_000 ''defaultNote'' = JStr (js ''Home'')"
  "lookup DEFAULT_part_000 ''workspace'' = JStr (js ''Home'')"
  by (simp_all add: lookup_def DEFAULT_part_000_def)

text \<open>
  C1, as the claim states it, fails: on a blank string \<open>sanitiseNote\<close> returns \<open>null\<close>,
  which is not the default \<open>"Home"\<close> of either homepage field. Here the input is a
  single space.
\<close>

theorem sanitiseNote_blank_not_default:
  "match_blank [0x20]
   \<and> sanitiseNote id (JStr [0x20]) = Inr JNull
   \<and> sanitiseNote id (JStr [0x20]) \<noteq> Inr (lookup DEFAULT ''defaultNote'')
   \<and> sanitiseNote id (JStr [0x20]) \<noteq> Inr (lookup DEFAULT ''workspace'')
   \<and> sanitiseNote_part_000 id (JStr [0x20]) \<noteq> Inr (lookup DEFAULT_part_000 ''defaultNote'')
   \<and> sanitiseNote_part_000 id (JStr [0x20]) \<noteq> Inr (lookup DEFAULT_part_000 ''workspace'')"
  by (simp add: sanitiseNote_def sanitiseNote_part_000_def match_blank_def isWhiteSpace_space
      lookup_DEFAULT_homepage lookup_DEFAULT_part_000_homepage)

text \<open>
  C1, amended: for every input string that is blank or consists only of white space,
  \<open>sanitiseNote\<close> (in both files) returns \<open>null\<close>; the default value comes from its
  caller, whose \<open>sanitiseNote(value) || d\<close> is then \<open>d\<close>.
\<close>

theorem sanitiseNote_blank_null:
  assumes "\<forall>c\<in>set v. isWhiteSpace c"
  shows "sanitiseNote normalizePath (JStr v) = Inr JNull
         \<and> sanitiseNote_part_000 normalizePath (JStr v) = Inr JNull
         \<and> js_or JNull d = d"
  using assms by (simp add: sanitiseNote_blank sanitiseNote_part_000_blank js_or_def)

theorem sanitiseNote_blank_null_witness:
  "isWhiteSpace 0x20
   \<and> sanitiseNote id (JStr [0x20, 0x20]) = Inr JNull
   \<and> sanitiseNote_part_000 id (JStr [0x20, 0x20]) = Inr JNull
   \<and> js_or JNull (JStr (js ''Home'')) = JStr (js ''Home'')"
proof -
  have blank: "\<forall>c\<in>set [0x20, 0x20]. isWhiteSpace c"
    by (simp add: isWhiteSpace_space)
  from sanitiseNote_blank_null [OF blank, of id "JStr (js ''Home'')"]
  show ?thesis by (simp add: isWhiteSpace_space)
qed

text \<open>
  C2: for every input string with at least one unit that is not white space,
  \<open>sanitiseNote\<close> (in both files) returns \<open>normalizePath\<close> of that string, and not the
  \<open>null\<close> that makes its caller take the default.
\<close>

theorem sanitiseNote_normalizes:
  assumes "\<exists>c\<in>set v. \<not> isWhiteSpace c"
  shows "sanitiseNote normalizePath (JStr v) = Inr (JStr (normalizePath v))
         \<and> sanitiseNote_part_000 normalizePath (JStr v) = Inr (JStr (normalizePath v))
         \<and> sanitiseNote normalizePath (JStr v) \<noteq> Inr JNull
         \<and> sanitiseNote_part_000 normalizePath (JStr v) \<noteq> Inr JNull"
  using assms by (auto simp add: sanitiseNote_def sanitiseNote_part_000_def match_blank_iff)

theorem sanitiseNote_normalizes_witness:
  "(\<exists>c\<in>set (js ''Home''). \<not> isWhiteSpace c)
   \<and> sanitiseNote id (JStr (js ''Home'')) = Inr (JStr (js ''Home''))
   \<and> sanitiseNote_part_000 id (JStr (js ''Home'')) = Inr (JStr (js ''Home''))"
proof -
  have nonblank: "\<exists>c\<in>set (js ''Home''). \<not> isWhiteSpace c"
    by (simp add: js_Home not_isWhiteSpace_H)
  from sanitiseNote_normalizes [OF nonblank, of id] nonblank
  show ?thesis by simp
qed

text \<open>
  C8: the \<open>sanitiseNote\<close> of \<open>src/src/settings.ts\<close> and that of \<open>src/unnamed/part_000\<close>
  return the same result on every input, \<open>null\<close> and values that are not strings
  included, for the same \<open>normalizePath\<close>.
\<close>

theorem sanitiseNote_versions_equal:
  "sanitiseNote normalizePath value = sanitiseNote_part_000 normalizePath value"
  by (simp add: sanitiseNote_def sanitiseNote_part_000_def)

section \<open>Properties of the homepage text field\<close>

text \<open>
  C3: on every blank or white-space-only input the change handler of the homepage text
  field returns normally (no error), and the homepage setting of the mode
  (\<open>workspace\<close> in workspaces mode, \<open>defaultNote\<close> otherwise) is then its default,
  \<open>"Home"\<close>, in the settings object and in what was saved. Both files.
\<close>

theorem text_onChange_blank_default:
  assumes "\<forall>c\<in>set v. isWhiteSpace c"
    and "homepage = (if workspacesMode then ''workspace'' else ''defaultNote'')"
  shows "(\<exists>t'. text_onChange normalizePath homepage (JStr v) t = Inr t'
           \<and> lookup (settings t') homepage = lookup DEFAULT homepage
           \<and> lookup (settings t') homepage = JStr (js ''Home'')
           \<and> stored t' = Some (settings t'))
       \<and> (\<exists>t'. text_onChange_part_000 normalizePath homepage (JStr v) t = Inr t'
           \<and> lookup (settings t') homepage = lookup DEFAULT_part_000 homepage
           \<and> lookup (settings t') homepage = JStr (js ''Home'')
           \<and> stored t' = Some (settings t'))"
  using assms
  by (simp add: text_onChange_def text_onChange_part_000_def sanitiseNote_blank
      sanitiseNote_part_000_blank js_or_def saveSettings_def lookup_DEFAULT_homepage
      lookup_DEFAULT_part_000_homepage lookup_upd_same)

theorem text_onChange_blank_default_witness:
  "isWhiteSpace 0x20
   \<and> (\<exists>t'. text_onChange id ''defaultNote'' (JStr [0x20])
              \<lparr>settings = DEFAULT(''defaultNote'' \<mapsto> JStr (js ''Start'')), stored = None,
               containerEl = []\<rparr> = Inr t'
         \<and> lookup (settings t') ''defaultNote'' = JStr (js ''Home''))
   \<and> (\<exists>t'. text_onChange_part_000 id ''defaultNote'' (JStr [0x20])
              \<lparr>settings = DEFAULT(''defaultNote'' \<mapsto> JStr (js ''Start'')), stored = None,
               containerEl = []\<rparr> = Inr t'
         \<and> lookup (settings t') ''defaultNote'' = JStr (js ''Home''))"
proof -
  have blank: "\<forall>c\<in>set [0x20]. isWhiteSpace c"
    by (simp add: isWhiteSpace_space)
  have key: "''defaultNote'' = (if False then ''workspace'' else ''defaultNote'')"
    by simp
  from text_onChange_blank_default [OF blank key, of id
      "\<lparr>settings = DEFAULT(''defaultNote'' \<mapsto> JStr (js ''Start'')), stored = None,
        containerEl = []\<rparr>"] isWhiteSpace_space
  show ?thesis by blast
qed

section \<open>Properties of the default record\<close>

lemma dom_DEFAULT: "dom DEFAULT = set (map fst HomepageSettings_members)"
  by (simp add: DEFAULT_def HomepageSettings_members_def dom_map_of_conv_image_fst)

lemma types_DEFAULT:
  "list_all (\<lambda>(k, ty). has_type (lookup DEFAULT k) ty) HomepageSettings_members"
  by (simp add: DEFAULT_def HomepageSettings_members_def lookup_def member_def Mode_def View_def)

lemma dom_DEFAULT_part_000:
  "dom DEFAULT_part_000 = set (map fst HomepageSettings_members_part_000)"
  by (simp add: DEFAULT_part_000_def HomepageSettings_members_part_000_def
      dom_map_of_conv_image_fst)

lemma types_DEFAULT_part_000:
  "list_all (\<lambda>(k, ty). has_type (lookup DEFAULT_part_000 k) ty)
     HomepageSettings_members_part_000"
  by (simp add: DEFAULT_part_000_def HomepageSettings_members_part_000_def lookup_def
      member_def Mode_def View_def)

lemma dom_DEFAULT_diff:
  "dom DEFAULT = dom DEFAULT_part_000 - {''openOnStartup'', ''autoScroll''}"
proof -
  have "map fst HomepageSettings_members =
     filter (\<lambda>k. k \<noteq> ''openOnStartup'' \<and> k \<noteq> ''autoScroll'')
       (map fst HomepageSettings_members_part_000)"
    by (simp add: HomepageSettings_members_def HomepageSettings_members_part_000_def)
  then have "set (map fst HomepageSettings_members) =
     set (map fst HomepageSettings_members_part_000) - {''openOnStartup'', ''autoScroll''}"
    by (simp only: set_filter) blast
  then show ?thesis by (simp only: dom_DEFAULT dom_DEFAULT_part_000)
qed

text \<open>
  C7, as the claim states it, fails for the \<open>DEFAULT\<close> of \<open>src/src/settings.ts\<close>: that
  record has no auto-scroll flag (and no \<open>openOnStartup\<close>); reading either gives
  \<open>undefined\<close>.
\<close>

theorem DEFAULT_has_no_autoScroll:
  "DEFAULT ''autoScroll'' = None
   \<and> lookup DEFAULT ''autoScroll'' = JUndefined
   \<and> DEFAULT ''openOnStartup'' = None"
  by (simp add: DEFAULT_def lookup_def)

text \<open>
  C7, amended: the \<open>DEFAULT\<close> of \<open>src/unnamed/part_000\<close> has exactly the members its
  interface declares (among them the homepage note name and the workspace name, the
  date format, \<open>openOnStartup\<close>, the view, and the pin, auto-create and auto-scroll
  flags), each bound to a value of its declared primitive type, and \<open>version\<close> is the
  integer 2. The \<open>DEFAULT\<close> of \<open>src/src/settings.ts\<close> has exactly the members of its own
  interface, typed likewise, with \<open>version\<close> 2; they are those of the other file
  without \<open>openOnStartup\<close> and \<open>autoScroll\<close>.
\<close>

theorem DEFAULT_matches_schema:
  "dom DEFAULT_part_000 = set (map fst HomepageSettings_members_part_000)
   \<and> list_all (\<lambda>(k, ty). has_type (lookup DEFAULT_part_000 k) ty)
        HomepageSettings_members_part_000
   \<and> lookup DEFAULT_part_000 ''version'' = JNum 2
   \<and> lookup DEFAULT_part_000 ''defaultNote'' = JStr (js ''Home'')
   \<and> lookup DEFAULT_part_000 ''workspace'' = JStr (js ''Home'')
   \<and> lookup DEFAULT_part_000 ''momentFormat'' = JStr (js ''YYYY-MM-DD'')
   \<and> lookup DEFAULT_part_000 ''openOnStartup'' = JBool True
   \<and> lookup DEFAULT_part_000 ''view'' = JStr (js ''Default view'')
   \<and> lookup DEFAULT_part_000 ''pin'' = JBool False
   \<and> lookup DEFAULT_part_000 ''autoCreate'' = JBool True
   \<and> lookup DEFAULT_part_000 ''autoScroll'' = JBool False
   \<and> dom DEFAULT = set (map fst HomepageSettings_members)
   \<and> list_all (\<lambda>(k, ty). has_type (lookup DEFAULT k) ty) HomepageSettings_members
   \<and> lookup DEFAULT ''version'' = JNum 2
   \<and> dom DEFAULT = dom DEFAULT_part_000 - {''openOnStartup'', ''autoScroll''}"
proof (intro conjI)
  show "dom DEFAULT_part_000 = set (map fst HomepageSettings_members_part_000)"
    by (rule dom_DEFAULT_part_000)
  show "list_all (\<lambda>(k, ty). has_type (lookup DEFAULT_part_000 k) ty)
        HomepageSettings_members_part_000"
    by (rule types_DEFAULT_part_000)
  show "lookup DEFAULT_part_000 ''version'' = JNum 2"
    by (simp add: DEFAULT_part_000_def lookup_def)
  show "lookup DEFAULT_part_000 ''defaultNote'' = JStr (js ''Home'')"
    by (simp add: DEFAULT_part_000_def lookup_def)
  show "lookup DEFAULT_part_000 ''workspace'' = JStr (js ''Home'')"
    by (simp add: DEFAULT_part_000_def lookup_def)
  show "lookup DEFAULT_part_000 ''momentFormat'' = JStr (js ''YYYY-MM-DD'')"
    by (simp add: DEFAULT_part_000_def lookup_def)
  show "lookup DEFAULT_part_000 ''openOnStartup'' = JBool True"
    by (simp add: DEFAULT_part_000_def lookup_def)
  show "lookup DEFAULT_part_000 ''view'' = JStr (js ''Default view'')"
    by (simp add: DEFAULT_part_000_def lookup_def member_def View_def)
  show "lookup DEFAULT_part_000 ''pin'' = JBool False"
    by (simp add: DEFAULT_part_000_def lookup_def)
  show "lookup DEFAULT_part_000 ''autoCreate'' = JBool True"
    by (simp add: DEFAULT_part_000_def lookup_def)
  show "lookup DEFAULT_part_000 ''autoScroll'' = JBool False"
    by (simp add: DEFAULT_part_000_def lookup_def)
  show "dom DEFAULT = set (map fst HomepageSettings_members)"
    by (rule dom_DEFAULT)
  show "list_all (\<lambda>(k, ty). has_type (lookup DEFAULT k) ty) HomepageSettings_members"
    by (rule types_DEFAULT)
  show "lookup DEFAULT ''version'' = JNum 2"
    by (simp add: DEFAULT_def lookup_def)
  show "dom DEFAULT = dom DEFAULT_part_000 - {''openOnStartup'', ''autoScroll''}"
    by (rule dom_DEFAULT_diff)
qed

section \<open>Properties of the suggesters\<close>

lemma contains_iff_sublist: "contains s target \<longleftrightarrow> sublist target s"
  by (induction s) (simp_all add: sublist_Cons_right)

lemma contains_iff: "contains s target \<longleftrightarrow> (\<exists>ps ss. s = ps @ target @ ss)"
  by (simp add: contains_iff_sublist sublist_def)

lemma fold_push: "fold (\<lambda>x acc. if P x then acc @ [x] else acc) xs acc = acc @ filter P xs"
  by (induction xs arbitrary: acc) simp_all

lemma FileSuggest_filter:
  "FileSuggest_getSuggestions lower abstractFiles inputStr =
     filter (suggested lower (lower inputStr)) abstractFiles"
  by (simp add: FileSuggest_getSuggestions_def fold_push)

lemma suggested_iff:
  "suggested lower q f \<longleftrightarrow>
     (\<exists>p b. f = TFile p b (js ''md'') \<and> (\<exists>ps ss. lower p = ps @ q @ ss))"
  by (cases f) (auto simp add: contains_iff)


lemma getSuggestions_example:
  "WorkspaceSuggest_getSuggestions toLowerCase_ascii
     (Some [js ''Home'', js ''Work'', js ''my home'']) (js ''HOME'')
     = Inr [js ''Home'', js ''my home'']
   \<and> FileSuggest_getSuggestions toLowerCase_ascii
     [TFile (js ''Home.md'') (js ''Home'') (js ''md''), TFolder (js ''home''),
      TFile (js ''Work/Plan.md'') (js ''Plan'') (js ''md'')] (js ''hOmE'')
     = [TFile (js ''Home.md'') (js ''Home'') (js ''md'')]"
  by (simp add: WorkspaceSuggest_getSuggestions_def FileSuggest_getSuggestions_def js_def
      toLowerCase_ascii_def)

text \<open>
  C9: for every query (the empty one included) and every list of loaded files, each
  suggestion of \<open>FileSuggest.getSuggestions\<close> is a file of the list whose extension is
  exactly \<open>md\<close> and whose lower-cased full path contains the lower-cased query; a
  markdown file is suggested exactly when its path matches so; folders and files with
  another extension are never suggested.
\<close>

theorem FileSuggest_markdown_by_path:
  "(\<forall>f\<in>set (FileSuggest_getSuggestions lower abstractFiles inputStr).
      \<exists>p b. f = TFile p b (js ''md'') \<and> f \<in> set abstractFiles
            \<and> contains (lower p) (lower inputStr))
   \<and> (\<forall>p b. TFile p b (js ''md'') \<in> set (FileSuggest_getSuggestions lower abstractFiles inputStr)
        \<longleftrightarrow> TFile p b (js ''md'') \<in> set abstractFiles
            \<and> (\<exists>ps ss. lower p = ps @ lower inputStr @ ss))
   \<and> (\<forall>p. TFolder p \<notin> set (FileSuggest_getSuggestions lower abstractFiles inputStr))
   \<and> (\<forall>p b e. e \<noteq> js ''md'' \<longrightarrow>
         TFile p b e \<notin> set (FileSuggest_getSuggestions lower abstractFiles inputStr))"
  by (auto simp add: FileSuggest_filter suggested_iff contains_iff)

theorem FileSuggest_markdown_by_path_witness:
  "FileSuggest_getSuggestions toLowerCase_ascii
     [TFolder (js ''Folder''), TFile (js ''Folder/Note.md'') (js ''Note'') (js ''md''),
      TFile (js ''Folder/pic.png'') (js ''pic'') (js ''png'')] (js ''FOLDER'')
     = [TFile (js ''Folder/Note.md'') (js ''Note'') (js ''md'')]
   \<and> \<not> contains (toLowerCase_ascii (js ''Note'')) (toLowerCase_ascii (js ''FOLDER''))
   \<and> TFolder (js ''Folder'') \<notin> set (FileSuggest_getSuggestions toLowerCase_ascii
     [TFolder (js ''Folder''), TFile (js ''Folder/Note.md'') (js ''Note'') (js ''md''),
      TFile (js ''Folder/pic.png'') (js ''pic'') (js ''png'')] (js ''FOLDER''))
   \<and> FileSuggest_getSuggestions toLowerCase_ascii
     [TFolder (js ''Folder''), TFile (js ''Folder/Note.md'') (js ''Note'') (js ''md''),
      TFile (js ''Folder/pic.png'') (js ''pic'') (js ''png'')] []
     = [TFile (js ''Folder/Note.md'') (js ''Note'') (js ''md'')]"
  using FileSuggest_markdown_by_path [of toLowerCase_ascii
      "[TFolder (js ''Folder''), TFile (js ''Folder/Note.md'') (js ''Note'') (js ''md''),
        TFile (js ''Folder/pic.png'') (js ''pic'') (js ''png'')]" "js ''FOLDER''"]
  by (simp add: FileSuggest_getSuggestions_def js_def toLowerCase_ascii_def)

section \<open>Properties of the rendered tab\<close>

lemma controls_append: "controls (xs @ ys) = controls xs @ controls ys"
  by (induction xs rule: controls.induct) simp_all

lemma controls_Cons_cong:
  "controls [e] = controls [e'] \<Longrightarrow> controls (e # es) = controls (e' # es)"
  by (cases e; cases e') simp_all

lemma controls_modify:
  "(\<And>e. controls [f e] = controls [e]) \<Longrightarrow> controls (modify i f es) = controls es"
proof (induction i f es rule: modify.induct)
  case (2 f x xs)
  then show ?case using controls_Cons_cong [of "f x" x xs] by simp
next
  case (3 i f x xs)
  then show ?case by (cases x) simp_all
qed simp

lemma controls_map:
  "(\<And>e. controls [f e] = controls [e]) \<Longrightarrow> controls (map f es) = controls es"
proof (induction es)
  case (Cons x xs)
  have "controls (f x # map f xs) = controls (x # map f xs)"
    using Cons.prems controls_Cons_cong by blast
  also have "\<dots> = controls (x # xs)"
    using Cons by (cases x) simp_all
  finally show ?case by simp
qed simp

lemma controls_one_setStyle: "controls [setStyle s e] = controls [e]"
  by (cases e) simp_all

lemma controls_one_appendStyle: "controls [appendStyle s e] = controls [e]"
  by (cases e) simp_all

lemma controls_one_disableSetting: "controls [disableSetting e] = controls [e]"
  by (simp add: disableSetting_def controls_one_setStyle)

lemma fold_addOption:
  "fold (\<lambda>key d. addOption key key d) keys dropdown =
     dropdown\<lparr>options := options dropdown @ map (\<lambda>key. (key, key)) keys\<rparr>"
  by (induction keys arbitrary: dropdown) (simp_all add: addOption_def)

lemma addToggle_simps:
  "settings (snd (addToggle nm setting cb w t)) = settings t"
  "stored (snd (addToggle nm setting cb w t)) = stored t"
  "controls (containerEl (snd (addToggle nm setting cb w t))) =
     controls (containerEl t) @ [ToggleC setting (lookup (settings t) setting) cb]"
  by (simp_all add: addToggle_def appendChild_def controls_append)

lemma addDropdown_simps:
  "settings (snd (addDropdown nm setting source t)) = settings t"
  "stored (snd (addDropdown nm setting source t)) = stored t"
  "controls (containerEl (snd (addDropdown nm setting source t))) =
     controls (containerEl t)
     @ [DropdownC setting (built_dropdown source (lookup (settings t) setting))]"
  by (simp_all add: addDropdown_def appendChild_def controls_append Let_def fold_addOption
      setValue_def new_DropdownComponent_def built_dropdown_def)

lemma addHeading_simps:
  "settings (snd (addHeading nm t)) = settings t"
  "stored (snd (addHeading nm t)) = stored t"
  "controls (containerEl (snd (addHeading nm t))) = controls (containerEl t) @ [HeadingC]"
  by (simp_all add: addHeading_def appendChild_def controls_append)

lemma homepage_entry_simps:
  "settings (homepage_entry D wm t) = settings t"
  "stored (homepage_entry D wm t) = stored t"
  "controls (containerEl (homepage_entry D wm t)) =
     controls (containerEl t) @ [homepage_control D wm (settings t)]"
  by (simp_all add: homepage_entry_def appendChild_def controls_append Let_def
      homepage_control_def)

lemmas build_simps = addToggle_simps addDropdown_simps addHeading_simps homepage_entry_simps



lemma display_controls:
  "controls (containerEl (display h t)) =
     [homepage_control DEFAULT (plugin_workspacesMode h t) (settings t),
      ToggleC ''useMoment'' (lookup (settings t) ''useMoment'') Redisplay]
     @ (if workspacePlugin_enabled h
        then [ToggleC ''workspaceEnabled'' (lookup (settings t) ''workspaceEnabled'') Redisplay]
        else [])
     @ [ToggleC ''hasRibbonIcon'' (lookup (settings t) ''hasRibbonIcon'') SetIcon,
        DropdownC ''view'' (built_dropdown View (lookup (settings t) ''view'')),
        ToggleC ''revertView'' (lookup (settings t) ''revertView'') SetReversion,
        DropdownC ''openMode'' (built_dropdown Mode (lookup (settings t) ''openMode'')),
        DropdownC ''manualOpenMode''
          (built_dropdown Mode (lookup (settings t) ''manualOpenMode'')),
        ToggleC ''autoCreate'' (lookup (settings t) ''autoCreate'') NoCallback,
        ToggleC ''pin'' (lookup (settings t) ''pin'') NoCallback]
     @ (if getDataviewPlugin h
        then [ToggleC ''refreshDataview'' (lookup (settings t) ''refreshDataview'') NoCallback]
        else [])"
  by (simp add: display_def Let_def split_beta build_simps controls_modify controls_map
      controls_one_setStyle)

lemma display_part_000_controls:
  "controls (containerEl (display_part_000 h t)) =
     [homepage_control DEFAULT_part_000 (plugin_workspacesMode h t) (settings t),
      ToggleC ''useMoment'' (lookup (settings t) ''useMoment'') Redisplay]
     @ (if workspacePlugin_enabled h
        then [ToggleC ''workspaceEnabled'' (lookup (settings t) ''workspaceEnabled'') Redisplay]
        else [])
     @ [ToggleC ''openOnStartup'' (lookup (settings t) ''openOnStartup'') Redisplay,
        ToggleC ''hasRibbonIcon'' (lookup (settings t) ''hasRibbonIcon'') SetIcon,
        HeadingC,
        DropdownC ''openMode'' (built_dropdown Mode (lookup (settings t) ''openMode'')),
        DropdownC ''manualOpenMode''
          (built_dropdown Mode (lookup (settings t) ''manualOpenMode'')),
        ToggleC ''autoCreate'' (lookup (settings t) ''autoCreate'') NoCallback,
        ToggleC ''pin'' (lookup (settings t) ''pin'') NoCallback,
        HeadingC,
        DropdownC ''view'' (built_dropdown View (lookup (settings t) ''view'')),
        ToggleC ''revertView'' (lookup (settings t) ''revertView'') SetReversion,
        ToggleC ''autoScroll'' (lookup (settings t) ''autoScroll'') NoCallback]
     @ (if getDataviewPlugin h
        then [ToggleC ''refreshDataview'' (lookup (settings t) ''refreshDataview'') NoCallback]
        else [])"
  by (simp add: display_part_000_def Let_def split_beta build_simps controls_modify
      controls_map controls_one_setStyle controls_one_appendStyle controls_one_disableSetting)

text \<open>
  C5: for every settings state (and every host), \<open>display\<close> renders exactly one
  homepage-entry control: the Moment format control when \<open>useMoment\<close> is true (as
  \<open>&&\<close> reads it) and workspaces mode is off, and no text field then; otherwise the
  homepage text field and no Moment format control. Both files.
\<close>

theorem display_one_homepage_entry:
  "length (filter isMomentFormat (controls (containerEl (display h t)))) =
     (if truthy (lookup (settings t) ''useMoment'') \<and> \<not> plugin_workspacesMode h t
      then 1 else 0)
   \<and> length (filter isHomepageText (controls (containerEl (display h t)))) =
     (if truthy (lookup (settings t) ''useMoment'') \<and> \<not> plugin_workspacesMode h t
      then 0 else 1)
   \<and> length (filter isMomentFormat (controls (containerEl (display_part_000 h t)))) =
     (if truthy (lookup (settings t) ''useMoment'') \<and> \<not> plugin_workspacesMode h t
      then 1 else 0)
   \<and> length (filter isHomepageText (controls (containerEl (display_part_000 h t)))) =
     (if truthy (lookup (settings t) ''useMoment'') \<and> \<not> plugin_workspacesMode h t
      then 0 else 1)"
  by (simp add: display_controls display_part_000_controls homepage_control_def)

theorem display_one_homepage_entry_witness:
  "length (filter isMomentFormat (controls (containerEl
      (display \<lparr>plugin_workspacesMode = (\<lambda>t. False), getDailynotesAutorun = False,
                workspacePlugin_enabled = True, getDataviewPlugin = False,
                setIcon = (\<lambda>v t. t), setReversion = (\<lambda>v t. t)\<rparr>
         \<lparr>settings = DEFAULT(''useMoment'' \<mapsto> JBool True), stored = None,
          containerEl = []\<rparr>)))) = 1
   \<and> length (filter isHomepageText (controls (containerEl
      (display \<lparr>plugin_workspacesMode = (\<lambda>t. False), getDailynotesAutorun = False,
                workspacePlugin_enabled = True, getDataviewPlugin = False,
                setIcon = (\<lambda>v t. t), setReversion = (\<lambda>v t. t)\<rparr>
         \<lparr>settings = DEFAULT(''useMoment'' \<mapsto> JBool True), stored = None,
          containerEl = []\<rparr>)))) = 0
   \<and> length (filter isMomentFormat (controls (containerEl
      (display_part_000 \<lparr>plugin_workspacesMode = (\<lambda>t. False), getDailynotesAutorun = False,
                workspacePlugin_enabled = True, getDataviewPlugin = False,
                setIcon = (\<lambda>v t. t), setReversion = (\<lambda>v t. t)\<rparr>
         \<lparr>settings = DEFAULT(''useMoment'' \<mapsto> JBool True), stored = None,
          containerEl = []\<rparr>)))) = 1
   \<and> length (filter isHomepageText (controls (containerEl
      (display_part_000 \<lparr>plugin_workspacesMode = (\<lambda>t. False), getDailynotesAutorun = False,
                workspacePlugin_enabled = True, getDataviewPlugin = False,
                setIcon = (\<lambda>v t. t), setReversion = (\<lambda>v t. t)\<rparr>
         \<lparr>settings = DEFAULT(''useMoment'' \<mapsto> JBool True), stored = None,
          containerEl = []\<rparr>)))) = 0"
  using display_one_homepage_entry
    [of "\<lparr>plugin_workspacesMode = (\<lambda>t. False), getDailynotesAutorun = False,
                workspacePlugin_enabled = True, getDataviewPlugin = False,
                setIcon = (\<lambda>v t. t), setReversion = (\<lambda>v t. t)\<rparr>"
        "\<lparr>settings = DEFAULT(''useMoment'' \<mapsto> JBool True), stored = None,
          containerEl = []\<rparr>"]
  by (simp add: lookup_def)

text \<open>
  C10: the dropdown that \<open>addDropdown\<close> appends has one option per value of its source
  enumeration, value and label the same, in the order of the enumeration, and the value
  given to \<open>setValue\<close> is the stored value of the bound settings field. The dropdowns of
  \<open>display\<close> are those of \<open>view\<close> over the four values of \<open>View\<close> and of \<open>openMode\<close>
  and \<open>manualOpenMode\<close> over the three values of \<open>Mode\<close>, in both files.
\<close>

theorem addDropdown_options:
  "containerEl (snd (addDropdown nm setting source t)) =
     containerEl t @ [SettingEl \<lparr>name = nm,
        control = DropdownC setting
          \<lparr>options = map (\<lambda>key. (key, key)) (Object_values source),
           selected = lookup (settings t) setting\<rparr>,
        hidden = True, style = []\<rparr>]
   \<and> filter isDropdown (controls (containerEl (display h t))) =
       [DropdownC ''view'' \<lparr>options = map (\<lambda>key. (key, key)) (Object_values View),
                            selected = lookup (settings t) ''view''\<rparr>,
        DropdownC ''openMode'' \<lparr>options = map (\<lambda>key. (key, key)) (Object_values Mode),
                            selected = lookup (settings t) ''openMode''\<rparr>,
        DropdownC ''manualOpenMode'' \<lparr>options = map (\<lambda>key. (key, key)) (Object_values Mode),
                            selected = lookup (settings t) ''manualOpenMode''\<rparr>]
   \<and> filter isDropdown (controls (containerEl (display_part_000 h t))) =
       [DropdownC ''openMode'' \<lparr>options = map (\<lambda>key. (key, key)) (Object_values Mode),
                            selected = lookup (settings t) ''openMode''\<rparr>,
        DropdownC ''manualOpenMode'' \<lparr>options = map (\<lambda>key. (key, key)) (Object_values Mode),
                            selected = lookup (settings t) ''manualOpenMode''\<rparr>,
        DropdownC ''view'' \<lparr>options = map (\<lambda>key. (key, key)) (Object_values View),
                            selected = lookup (settings t) ''view''\<rparr>]
   \<and> Object_values Mode =
       [js ''Replace all open notes'', js ''Replace last note'', js ''Keep open notes'']
   \<and> Object_values View =
       [js ''Default view'', js ''Reading view'', js ''Editing view (Source)'',
        js ''Editing view (Live Preview)'']"
proof (intro conjI)
  show "containerEl (snd (addDropdown nm setting source t)) =
     containerEl t @ [SettingEl \<lparr>name = nm,
        control = DropdownC setting
          \<lparr>options = map (\<lambda>key. (key, key)) (Object_values source),
           selected = lookup (settings t) setting\<rparr>,
        hidden = True, style = []\<rparr>]"
    by (simp add: addDropdown_def appendChild_def Let_def fold_addOption setValue_def
        new_DropdownComponent_def)
  show "filter isDropdown (controls (containerEl (display h t))) =
       [DropdownC ''view'' \<lparr>options = map (\<lambda>key. (key, key)) (Object_values View),
                            selected = lookup (settings t) ''view''\<rparr>,
        DropdownC ''openMode'' \<lparr>options = map (\<lambda>key. (key, key)) (Object_values Mode),
                            selected = lookup (settings t) ''openMode''\<rparr>,
        DropdownC ''manualOpenMode'' \<lparr>options = map (\<lambda>key. (key, key)) (Object_values Mode),
                            selected = lookup (settings t) ''manualOpenMode''\<rparr>]"
    by (simp add: display_controls homepage_control_def built_dropdown_def)
  show "filter isDropdown (controls (containerEl (display_part_000 h t))) =
       [DropdownC ''openMode'' \<lparr>options = map (\<lambda>key. (key, key)) (Object_values Mode),
                            selected = lookup (settings t) ''openMode''\<rparr>,
        DropdownC ''manualOpenMode'' \<lparr>options = map (\<lambda>key. (key, key)) (Object_values Mode),
                            selected = lookup (settings t) ''manualOpenMode''\<rparr>,
        DropdownC ''view'' \<lparr>options = map (\<lambda>key. (key, key)) (Object_values View),
                            selected = lookup (settings t) ''view''\<rparr>]"
    by (simp add: display_part_000_controls homepage_control_def built_dropdown_def)
  show "Object_values Mode =
       [js ''Replace all open notes'', js ''Replace last note'', js ''Keep open notes'']"
    by (simp add: Object_values_def Mode_def)
  show "Object_values View =
       [js ''Default view'', js ''Reading view'', js ''Editing view (Source)'',
        js ''Editing view (Live Preview)'']"
    by (simp add: Object_values_def View_def)
qed

theorem addDropdown_options_witness:
  "filter isDropdown (controls (containerEl
      (display \<lparr>plugin_workspacesMode = (\<lambda>t. False), getDailynotesAutorun = False,
                workspacePlugin_enabled = True, getDataviewPlugin = False,
                setIcon = (\<lambda>v t. t), setReversion = (\<lambda>v t. t)\<rparr>
         \<lparr>settings = DEFAULT, stored = None, containerEl = []\<rparr>))) =
     [DropdownC ''view''
        \<lparr>options = [(js ''Default view'', js ''Default view''),
                    (js ''Reading view'', js ''Reading view''),
                    (js ''Editing view (Source)'', js ''Editing view (Source)''),
                    (js ''Editing view (Live Preview)'', js ''Editing view (Live Preview)'')],
         selected = JStr (js ''Default view'')\<rparr>,
      DropdownC ''openMode''
        \<lparr>options = [(js ''Replace all open notes'', js ''Replace all open notes''),
                    (js ''Replace last note'', js ''Replace last note''),
                    (js ''Keep open notes'', js ''Keep open notes'')],
         selected = JStr (js ''Replace all open notes'')\<rparr>,
      DropdownC ''manualOpenMode''
        \<lparr>options = [(js ''Replace all open notes'', js ''Replace all open notes''),
                    (js ''Replace last note'', js ''Replace last note''),
                    (js ''Keep open notes'', js ''Keep open notes'')],
         selected = JStr (js ''Keep open notes'')\<rparr>]"
  using addDropdown_options
    [of "''Opening method''" "''openMode''" Mode
        "\<lparr>settings = DEFAULT, stored = None, containerEl = []\<rparr>"
        "\<lparr>plugin_workspacesMode = (\<lambda>t. False), getDailynotesAutorun = False,
                workspacePlugin_enabled = True, getDataviewPlugin = False,
                setIcon = (\<lambda>v t. t), setReversion = (\<lambda>v t. t)\<rparr>"]
  by (simp add: lookup_def DEFAULT_def member_def Mode_def View_def)

section \<open>Properties of the change handlers\<close>











end
